theory Spec2Isabelle
  imports Complex_Main
begin

section \<open>Data model\<close>

text \<open>
  A row of the ratings table read by \<open>load_dataset\<close>: the four columns of
  \<open>ratings.csv\<close>. A table (pandas DataFrame of records) is a list of rows.
\<close>

record rating_record =
  userId :: nat
  movieId :: nat
  rating :: real
  timestamp :: int

type_synonym ratings_df = "rating_record list"

text \<open>
  The result of \<open>pivot_table\<close>: a table of reals with a row label per user
  (\<open>index\<close>) and a column label per movie (\<open>columns\<close>).
\<close>

record user_movie_matrix =
  index :: "nat list"
  columns :: "nat list"
  cells :: "real list list"

text \<open>The exceptions that the modelled code paths can raise.\<close>

datatype error =
    KeyError
  | IndexError
  | ValueError_zero_size
  | ValueError_shapes
  | ValueError_no_samples
  | ValueError_not_finite
  | ValueError_n_components

section \<open>Matrix construction and split alignment\<close>

text \<open>
  \<open>df.pivot_table(index='userId', columns='movieId', values='rating', fill_value=0)\<close>:
  row labels are the distinct user ids in ascending order, column labels the distinct
  movie ids in ascending order; a cell holds the mean (the default \<open>aggfunc\<close>) of the
  ratings recorded for that pair, and \<open>0\<close> where there is none.
\<close>

definition pivot_cell :: "ratings_df \<Rightarrow> nat \<Rightarrow> nat \<Rightarrow> real" where
  "pivot_cell df u m =
     (let rs = map rating (filter (\<lambda>r. userId r = u \<and> movieId r = m) df)
      in if rs = [] then 0 else sum_list rs / real (length rs))"

definition create_user_movie_matrix :: "ratings_df \<Rightarrow> user_movie_matrix" where
  "create_user_movie_matrix df =
     (let us = sort (remdups (map userId df));
          ms = sort (remdups (map movieId df))
      in \<lparr>index = us, columns = ms,
          cells = map (\<lambda>u. map (\<lambda>m. pivot_cell df u m) ms) us\<rparr>)"

text \<open>
  \<open>Index.intersection\<close>: the labels of the first index that also occur in the second,
  in the order of the first.
\<close>

definition index_intersection :: "nat list \<Rightarrow> nat list \<Rightarrow> nat list" where
  "index_intersection self other = filter (\<lambda>x. x \<in> set other) self"

text \<open>Position of the first occurrence of a label (only used for labels that occur).\<close>

fun position :: "nat list \<Rightarrow> nat \<Rightarrow> nat" where
  "position [] x = 0"
| "position (y # ys) x = (if y = x then 0 else Suc (position ys x))"

text \<open>\<open>Index.get_loc\<close>: the position of a label, \<open>KeyError\<close> when it is absent.\<close>

definition get_loc :: "nat list \<Rightarrow> nat \<Rightarrow> error + nat" where
  "get_loc labels x = (if x \<in> set labels then Inr (position labels x) else Inl KeyError)"

text \<open>
  \<open>matrix.loc[rows, cols]\<close> with two lists of labels: the sub-table with exactly these
  row and column labels, in the order given; \<open>KeyError\<close> when a label is missing.
\<close>

definition loc :: "user_movie_matrix \<Rightarrow> nat list \<Rightarrow> nat list \<Rightarrow> error + user_movie_matrix" where
  "loc M rows cols =
     (if set rows \<subseteq> set (index M) \<and> set cols \<subseteq> set (columns M)
      then Inr \<lparr>index = rows, columns = cols,
                cells = map (\<lambda>u. map (\<lambda>m. cells M ! position (index M) u
                                               ! position (columns M) m) cols) rows\<rparr>
      else Inl KeyError)"

definition preprocess_splits ::
  "ratings_df \<Rightarrow> ratings_df \<Rightarrow> error + (user_movie_matrix \<times> user_movie_matrix)" where
  "preprocess_splits train_df test_df =
     (let train_matrix = create_user_movie_matrix train_df;
          test_matrix = create_user_movie_matrix test_df;
          common_users = index_intersection (index train_matrix) (index test_matrix);
          common_movies = index_intersection (columns train_matrix) (columns test_matrix)
      in case loc train_matrix common_users common_movies of
           Inl e \<Rightarrow> Inl e
         | Inr tr \<Rightarrow>
             (case loc test_matrix common_users common_movies of
                Inl e \<Rightarrow> Inl e
              | Inr te \<Rightarrow> Inr (tr, te)))"

text \<open>A table is well shaped when it has one row of cells per row label and one cell per
  column label in each row.\<close>

definition well_shaped :: "user_movie_matrix \<Rightarrow> bool" where
  "well_shaped M \<longleftrightarrow>
     length (cells M) = length (index M) \<and>
     list_all (\<lambda>row. length row = length (columns M)) (cells M)"

section \<open>Floating-point values\<close>

text \<open>
  The cells of the predicted matrix are numpy \<open>float64\<close> values. They are modelled as
  exact reals together with the three non-finite values, so that a division by zero
  yields what numpy yields (\<open>nan\<close> or an infinity, with a warning and no exception).
  Rounding, overflow and the sign of zero are not modelled.
\<close>

datatype npfloat = Fin real | PInf | NInf | NaN

fun is_finite :: "npfloat \<Rightarrow> bool" where
  "is_finite (Fin a) = True"
| "is_finite _ = False"

fun the_fin :: "npfloat \<Rightarrow> real" where
  "the_fin (Fin a) = a"
| "the_fin _ = 0"

fun np_sgn :: "npfloat \<Rightarrow> real" where
  "np_sgn (Fin a) = sgn a"
| "np_sgn PInf = 1"
| "np_sgn NInf = - 1"
| "np_sgn NaN = 0"

definition inf_of_sign :: "real \<Rightarrow> npfloat" where
  "inf_of_sign s = (if s > 0 then PInf else if s < 0 then NInf else NaN)"

fun np_neg :: "npfloat \<Rightarrow> npfloat" where
  "np_neg (Fin a) = Fin (- a)"
| "np_neg PInf = NInf"
| "np_neg NInf = PInf"
| "np_neg NaN = NaN"

fun np_add :: "npfloat \<Rightarrow> npfloat \<Rightarrow> npfloat" where
  "np_add (Fin a) (Fin b) = Fin (a + b)"
| "np_add NaN y = NaN"
| "np_add x NaN = NaN"
| "np_add PInf NInf = NaN"
| "np_add NInf PInf = NaN"
| "np_add PInf y = PInf"
| "np_add x PInf = PInf"
| "np_add NInf y = NInf"
| "np_add x NInf = NInf"

definition np_sub :: "npfloat \<Rightarrow> npfloat \<Rightarrow> npfloat" where
  "np_sub x y = np_add x (np_neg y)"

fun np_mul :: "npfloat \<Rightarrow> npfloat \<Rightarrow> npfloat" where
  "np_mul (Fin a) (Fin b) = Fin (a * b)"
| "np_mul NaN y = NaN"
| "np_mul x NaN = NaN"
| "np_mul x y = inf_of_sign (np_sgn x * np_sgn y)"

fun np_div :: "npfloat \<Rightarrow> npfloat \<Rightarrow> npfloat" where
  "np_div (Fin a) (Fin b) = (if b \<noteq> 0 then Fin (a / b) else inf_of_sign (sgn a))"
| "np_div NaN y = NaN"
| "np_div x NaN = NaN"
| "np_div (Fin a) y = Fin 0"
| "np_div x (Fin b) = inf_of_sign (np_sgn x * (if b < 0 then - 1 else 1))"
| "np_div x y = NaN"

text \<open>Comparisons: every comparison with \<open>nan\<close> is false.\<close>

fun np_less :: "npfloat \<Rightarrow> npfloat \<Rightarrow> bool" where
  "np_less (Fin a) (Fin b) = (a < b)"
| "np_less NaN y = False"
| "np_less x NaN = False"
| "np_less x NInf = False"
| "np_less PInf y = False"
| "np_less x y = True"

definition np_le :: "npfloat \<Rightarrow> npfloat \<Rightarrow> bool" where
  "np_le x y \<longleftrightarrow> np_less x y \<or> (x = y \<and> x \<noteq> NaN)"

definition np_ge :: "npfloat \<Rightarrow> npfloat \<Rightarrow> bool" where
  "np_ge x y \<longleftrightarrow> np_le y x"

definition np_eq :: "npfloat \<Rightarrow> npfloat \<Rightarrow> bool" where
  "np_eq x y \<longleftrightarrow> x = y \<and> x \<noteq> NaN"

section \<open>Rescaling and reconstruction\<close>

text \<open>
  \<open>ratings['rating'].min()\<close> and \<open>.max()\<close> of a pandas column: \<open>nan\<close> for an empty
  column.
\<close>

definition series_min :: "real list \<Rightarrow> npfloat" where
  "series_min xs = (if xs = [] then NaN else Fin (Min (set xs)))"

definition series_max :: "real list \<Rightarrow> npfloat" where
  "series_max xs = (if xs = [] then NaN else Fin (Max (set xs)))"

text \<open>
  \<open>normalize_predictions\<close>: \<open>reconstructed.min()\<close> and \<open>.max()\<close> range over all cells of
  the array and raise \<open>ValueError\<close> on an array without cells; the arithmetic is
  applied to every cell.
\<close>

definition normalize_predictions ::
  "real list list \<Rightarrow> ratings_df \<Rightarrow> error + npfloat list list" where
  "normalize_predictions reconstructed ratings =
     (let min_rating = series_min (map rating ratings);
          max_rating = series_max (map rating ratings)
      in if concat reconstructed = [] then Inl ValueError_zero_size
         else
           (let lo = Min (set (concat reconstructed));
                hi = Max (set (concat reconstructed))
            in Inr (map (map (\<lambda>x.
                  np_add (np_mul (np_div (Fin (x - lo)) (Fin (hi - lo)))
                                 (np_sub max_rating min_rating))
                         min_rating)) reconstructed)))"

text \<open>Number of columns of a two-dimensional array given as a list of rows.\<close>

definition ncols :: "'a list list \<Rightarrow> nat" where
  "ncols X = (case X of [] \<Rightarrow> 0 | row # _ \<Rightarrow> length row)"

text \<open>\<open>np.diag\<close> of a vector and \<open>np.dot\<close> of two two-dimensional arrays; \<open>np.dot\<close> raises
  \<open>ValueError\<close> when the inner dimensions differ.\<close>

definition diag :: "real list \<Rightarrow> real list list" where
  "diag v = map (\<lambda>i. map (\<lambda>j. if i = j then v ! i else 0) [0..<length v]) [0..<length v]"

definition dot :: "real list list \<Rightarrow> real list list \<Rightarrow> error + real list list" where
  "dot A B =
     (if list_all (\<lambda>row. length row = length B) A
      then Inr (map (\<lambda>row. map (\<lambda>j. sum_list (map2 (*) row (map (\<lambda>brow. brow ! j) B)))
                               [0..<ncols B]) A)
      else Inl ValueError_shapes)"

definition reconstruct_matrix ::
  "real list list \<Rightarrow> real list \<Rightarrow> real list list \<Rightarrow> ratings_df \<Rightarrow> error + npfloat list list" where
  "reconstruct_matrix U sigma VT ratings =
     (case dot (diag sigma) VT of
        Inl e \<Rightarrow> Inl e
      | Inr SV \<Rightarrow>
          (case dot U SV of
             Inl e \<Rightarrow> Inl e
           | Inr reconstructed \<Rightarrow> normalize_predictions reconstructed ratings))"

section \<open>Factorization\<close>

definition N_COMPONENTS :: nat where
  "N_COMPONENTS = 10"

definition RANDOM_STATE :: nat where
  "RANDOM_STATE = 42"

text \<open>
  The three values \<open>(U, Sigma, VT)\<close> that \<open>train_svd\<close> returns: the array returned by
  \<open>fit_transform\<close> and the attributes \<open>singular_values_\<close> and \<open>components_\<close> of the
  fitted object. The numerical routine of the library that computes them from the number
  of components, the seed and the array is a parameter of the model.
\<close>

type_synonym factors = "real list list \<times> real list \<times> real list list"

type_synonym solver = "nat \<Rightarrow> nat \<Rightarrow> real list list \<Rightarrow> factors"

text \<open>
  \<open>TruncatedSVD(n_components, random_state).fit_transform(X)\<close> with the default
  randomized algorithm: the library validates the array (at least one row) and raises
  \<open>ValueError\<close> when \<open>n_components\<close> exceeds the number of columns, before it runs the
  numerical routine with the number of components it was given. (Releases of the
  library before 1.1 also reject \<open>n_components\<close> equal to the number of columns; no
  statement below depends on that case.)
\<close>

definition TruncatedSVD_fit_transform ::
  "solver \<Rightarrow> nat \<Rightarrow> nat \<Rightarrow> real list list \<Rightarrow> error + factors" where
  "TruncatedSVD_fit_transform randomized_svd n_components random_state X =
     (if X = [] then Inl ValueError_no_samples
      else if n_components > ncols X then Inl ValueError_n_components
      else Inr (randomized_svd n_components random_state X))"

definition train_svd :: "solver \<Rightarrow> real list list \<Rightarrow> error + factors" where
  "train_svd randomized_svd matrix =
     TruncatedSVD_fit_transform randomized_svd N_COMPONENTS RANDOM_STATE matrix"

section \<open>Evaluation\<close>

text \<open>
  \<open>sklearn.metrics.mean_squared_error\<close>: the library checks both vectors before it
  computes the mean of the squared differences; it raises \<open>ValueError\<close> for vectors of
  different lengths, for vectors with no sample, and for a non-finite entry.
\<close>

definition mean_squared_error :: "real list \<Rightarrow> npfloat list \<Rightarrow> error + real" where
  "mean_squared_error y_true y_pred =
     (if length y_true \<noteq> length y_pred then Inl ValueError_shapes
      else if y_true = [] then Inl ValueError_no_samples
      else if \<not> list_all is_finite y_pred then Inl ValueError_not_finite
      else Inr (sum_list (map2 (\<lambda>t p. (t - the_fin p)\<^sup>2) y_true y_pred)
                / real (length y_true)))"

text \<open>
  The classification scores of the library with \<open>average='weighted'\<close> and
  \<open>zero_division=0\<close>: one score per label that occurs in either vector, a ratio whose
  value is \<open>0\<close> when its denominator is \<open>0\<close>, and the mean of the scores weighted by the
  number of true instances of each label.
\<close>

definition unique_labels :: "nat list \<Rightarrow> nat list \<Rightarrow> nat list" where
  "unique_labels y_true y_pred = sort (remdups (y_true @ y_pred))"

definition tp_sum :: "nat list \<Rightarrow> nat list \<Rightarrow> nat \<Rightarrow> nat" where
  "tp_sum y_true y_pred l = length (filter (\<lambda>(t, p). t = l \<and> p = l) (zip y_true y_pred))"

definition label_sum :: "nat list \<Rightarrow> nat \<Rightarrow> nat" where
  "label_sum ys l = length (filter (\<lambda>y. y = l) ys)"

definition prf_divide :: "nat \<Rightarrow> nat \<Rightarrow> real" where
  "prf_divide numerator denominator =
     (if denominator = 0 then 0 else real numerator / real denominator)"

definition weighted_average :: "real list \<Rightarrow> nat list \<Rightarrow> real" where
  "weighted_average scores weights =
     (if sum_list weights = 0 then 0
      else sum_list (map2 (\<lambda>s w. s * real w) scores weights) / real (sum_list weights))"

definition precision_score :: "nat list \<Rightarrow> nat list \<Rightarrow> real" where
  "precision_score y_true y_pred =
     (let labels = unique_labels y_true y_pred
      in weighted_average
           (map (\<lambda>l. prf_divide (tp_sum y_true y_pred l) (label_sum y_pred l)) labels)
           (map (label_sum y_true) labels))"

definition recall_score :: "nat list \<Rightarrow> nat list \<Rightarrow> real" where
  "recall_score y_true y_pred =
     (let labels = unique_labels y_true y_pred
      in weighted_average
           (map (\<lambda>l. prf_divide (tp_sum y_true y_pred l) (label_sum y_true l)) labels)
           (map (label_sum y_true) labels))"

definition f1_score :: "nat list \<Rightarrow> nat list \<Rightarrow> real" where
  "f1_score y_true y_pred =
     (let labels = unique_labels y_true y_pred
      in weighted_average
           (map (\<lambda>l. prf_divide (2 * tp_sum y_true y_pred l)
                                 (label_sum y_true l + label_sum y_pred l)) labels)
           (map (label_sum y_true) labels))"

text \<open>
  \<open>evaluate_predictions\<close> with its local constant \<open>threshold\<close> as an argument. The first
  argument is \<open>np.array(true_matrix)\<close>. Indexing the flattened predictions with the mask
  raises \<open>IndexError\<close> when the two arrays differ in their number of cells. The result
  is \<open>(rmse, precision, recall, f1)\<close>.
\<close>

definition evaluate_predictions_at ::
  "real \<Rightarrow> real list list \<Rightarrow> npfloat list list \<Rightarrow> error + (real \<times> real \<times> real \<times> real)" where
  "evaluate_predictions_at threshold true_matrix pred_matrix =
     (if length (concat pred_matrix) \<noteq> length (concat true_matrix) then Inl IndexError
      else
        (let selected = filter (\<lambda>(t, p). t \<noteq> 0) (zip (concat true_matrix) (concat pred_matrix));
             true_flat = map fst selected;
             pred_flat = map snd selected
         in case mean_squared_error true_flat pred_flat of
              Inl e \<Rightarrow> Inl e
            | Inr mse \<Rightarrow>
                (let rmse = sqrt mse;
                     true_binary = map (\<lambda>t. if t \<ge> threshold then 1 else 0) true_flat;
                     pred_binary = map (\<lambda>p. if np_ge p (Fin threshold) then 1 else 0) pred_flat
                 in Inr (rmse,
                         precision_score true_binary pred_binary,
                         recall_score true_binary pred_binary,
                         f1_score true_binary pred_binary))))"

definition evaluate_predictions ::
  "real list list \<Rightarrow> npfloat list list \<Rightarrow> error + (real \<times> real \<times> real \<times> real)" where
  "evaluate_predictions true_matrix pred_matrix =
     evaluate_predictions_at (7 / 2) true_matrix pred_matrix"


section \<open>Recommendation\<close>

text \<open>
  \<open>recommendations.sort(key=lambda x: x[1], reverse=True)\<close>: a stable sort into
  descending order of the score. It is modelled by a stable insertion sort that
  compares scores with \<open><\<close>, as the list sort does; the two agree on lists whose
  scores are totally ordered, that is on lists without \<open>nan\<close>.
\<close>

fun insert_desc :: "nat \<times> npfloat \<Rightarrow> (nat \<times> npfloat) list \<Rightarrow> (nat \<times> npfloat) list" where
  "insert_desc x [] = [x]"
| "insert_desc x (y # ys) =
     (if np_less (snd x) (snd y) then y # insert_desc x ys else x # y # ys)"

fun sort_desc :: "(nat \<times> npfloat) list \<Rightarrow> (nat \<times> npfloat) list" where
  "sort_desc [] = []"
| "sort_desc (x # xs) = insert_desc x (sort_desc xs)"

text \<open>The slice \<open>xs[:n]\<close>: a negative \<open>n\<close> counts from the end of the list.\<close>

definition slice_to :: "int \<Rightarrow> 'a list \<Rightarrow> 'a list" where
  "slice_to n xs = (if n \<ge> 0 then take (nat n) xs else take (length xs - nat (- n)) xs)"

text \<open>
  The loop over the candidate columns, the sort and the slice of \<open>recommend_movies\<close>
  (its last seven lines), for a row of scores and a list of candidate columns.
\<close>

definition rank_candidates ::
  "npfloat list \<Rightarrow> nat list \<Rightarrow> nat list \<Rightarrow> int \<Rightarrow> (nat \<times> npfloat) list" where
  "rank_candidates user_ratings movie_mapper idxs top_n =
     slice_to top_n (sort_desc (map (\<lambda>idx. (movie_mapper ! idx, user_ratings ! idx)) idxs))"

text \<open>The columns of a row whose score equals \<open>0\<close>: \<open>np.where(row == 0)[0]\<close>.\<close>

definition unrated_movie_indices :: "npfloat list \<Rightarrow> nat list" where
  "unrated_movie_indices user_ratings =
     filter (\<lambda>idx. np_eq (user_ratings ! idx) (Fin 0)) [0..<length user_ratings]"

text \<open>
  \<open>recommend_movies\<close>. Reading a row beyond the matrix or a label beyond
  \<open>movie_mapper\<close> raises \<open>IndexError\<close>.
\<close>

definition recommend_movies ::
  "nat \<Rightarrow> npfloat list list \<Rightarrow> nat list \<Rightarrow> nat list \<Rightarrow> int \<Rightarrow> error + (nat \<times> npfloat) list" where
  "recommend_movies user_id pred_matrix user_mapper movie_mapper top_n =
     (if user_id \<notin> set user_mapper then Inr []
      else
        (case get_loc user_mapper user_id of
           Inl e \<Rightarrow> Inl e
         | Inr user_idx \<Rightarrow>
             if user_idx \<ge> length pred_matrix then Inl IndexError
             else
               (let user_ratings = pred_matrix ! user_idx;
                    idxs = unrated_movie_indices user_ratings
                in if list_all (\<lambda>idx. idx < length movie_mapper) idxs
                   then Inr (rank_candidates user_ratings movie_mapper idxs top_n)
                   else Inl IndexError)))"

section \<open>One pass of the loop of \<open>main\<close>\<close>

text \<open>
  The body of the loop over the two splits, for the train and test tables of one split:
  the predicted matrix first, then the metrics and the recommendations for user \<open>2\<close>.
\<close>

definition split_pred_matrix ::
  "solver \<Rightarrow> ratings_df \<Rightarrow> ratings_df \<Rightarrow> error + npfloat list list" where
  "split_pred_matrix randomized_svd train_df test_df =
     (case preprocess_splits train_df test_df of
        Inl e \<Rightarrow> Inl e
      | Inr (train_matrix, test_matrix) \<Rightarrow>
          (case train_svd randomized_svd (cells train_matrix) of
             Inl e \<Rightarrow> Inl e
           | Inr (U, sigma, VT) \<Rightarrow> reconstruct_matrix U sigma VT train_df))"

definition evaluate_split ::
  "solver \<Rightarrow> ratings_df \<Rightarrow> ratings_df \<Rightarrow>
     error + (npfloat list list \<times> (real \<times> real \<times> real \<times> real) \<times> (nat \<times> npfloat) list)" where
  "evaluate_split randomized_svd train_df test_df =
     (case preprocess_splits train_df test_df of
        Inl e \<Rightarrow> Inl e
      | Inr (train_matrix, test_matrix) \<Rightarrow>
          (case split_pred_matrix randomized_svd train_df test_df of
             Inl e \<Rightarrow> Inl e
           | Inr pred_matrix \<Rightarrow>
               (case evaluate_predictions (cells test_matrix) pred_matrix of
                  Inl e \<Rightarrow> Inl e
                | Inr metrics \<Rightarrow>
                    (case recommend_movies 2 pred_matrix (index train_matrix)
                            (columns train_matrix) 5 of
                       Inl e \<Rightarrow> Inl e
                     | Inr recommendations \<Rightarrow> Inr (pred_matrix, metrics, recommendations)))))"

section \<open>Example inputs\<close>

text \<open>
  A train table and a test table: in the train table user \<open>2\<close> rates movie \<open>1\<close> with
  \<open>4\<close> and user \<open>1\<close> rates the movies \<open>1\<close> to \<open>11\<close> with \<open>1\<close>; in the test table
  user \<open>3\<close> rates movie \<open>1\<close> with \<open>0.5\<close> and user \<open>2\<close> rates the movies \<open>2\<close> to \<open>11\<close>
  with \<open>5\<close>. The two aligned matrices they give have the single row of user \<open>2\<close>.
\<close>

definition ex_train :: ratings_df where
  "ex_train = \<lparr>userId = 2, movieId = 1, rating = 4, timestamp = 0\<rparr>
     # map (\<lambda>m. \<lparr>userId = 1, movieId = m, rating = 1, timestamp = int m\<rparr>) [1..<12]"

definition ex_test :: ratings_df where
  "ex_test = \<lparr>userId = 3, movieId = 1, rating = 1 / 2, timestamp = 20\<rparr>
     # map (\<lambda>m. \<lparr>userId = 2, movieId = m, rating = 5, timestamp = 20 + int m\<rparr>) [2..<12]"

definition ex_aligned_train :: user_movie_matrix where
  "ex_aligned_train = \<lparr>index = [2], columns = [1, 2, 3, 4, 5, 6, 7, 8, 9, 10, 11],
     cells = [[4, 0, 0, 0, 0, 0, 0, 0, 0, 0, 0]]\<rparr>"

definition ex_aligned_test :: user_movie_matrix where
  "ex_aligned_test = \<lparr>index = [2], columns = [1, 2, 3, 4, 5, 6, 7, 8, 9, 10, 11],
     cells = [[0, 5, 5, 5, 5, 5, 5, 5, 5, 5, 5]]\<rparr>"




text \<open>
  The values that the factorization of the aligned train matrix \<open>[[4, 0, ..., 0]]\<close>
  returns: the transformed array \<open>[[4]]\<close>, the singular value \<open>4\<close> and the component
  \<open>[[1, 0, ..., 0]]\<close>. Then the predicted matrix of the pass over \<open>ex_train\<close> and
  \<open>ex_test\<close>, and the matrix that the range of all ratings of both tables would give.
\<close>

definition ex_solver :: solver where
  "ex_solver n_components random_state X = ([[4]], [4], [1 # replicate 10 0])"

definition ex_split_pred :: "npfloat list list" where
  "ex_split_pred = [Fin 4 # replicate 10 (Fin 1)]"



section \<open>Alignment of the two splits\<close>

lemma index_intersection_subset:
  "set (index_intersection xs ys) \<subseteq> set xs" "set (index_intersection xs ys) \<subseteq> set ys"
  by (auto simp: index_intersection_def)

lemma set_index_intersection: "set (index_intersection xs ys) = set xs \<inter> set ys"
  by (auto simp: index_intersection_def)

lemma index_create: "index (create_user_movie_matrix df) = sort (remdups (map userId df))"
  by (simp add: create_user_movie_matrix_def Let_def)

lemma columns_create: "columns (create_user_movie_matrix df) = sort (remdups (map movieId df))"
  by (simp add: create_user_movie_matrix_def Let_def)

lemma loc_ok:
  assumes "set rows \<subseteq> set (index M)" "set cols \<subseteq> set (columns M)"
  shows "\<exists>A. loc M rows cols = Inr A \<and> index A = rows \<and> columns A = cols \<and> well_shaped A"
  using assms by (simp add: loc_def well_shaped_def list_all_iff)

text \<open>The cells of the aligned matrices are the cells that \<open>pivot_table\<close> computed for
  their labels.\<close>

lemma position_less: "x \<in> set xs \<Longrightarrow> position xs x < length xs"
  by (induction xs) auto

lemma nth_position: "x \<in> set xs \<Longrightarrow> xs ! position xs x = x"
  by (induction xs) auto

lemma create_cell:
  assumes "u \<in> set (index (create_user_movie_matrix df))"
    and "m \<in> set (columns (create_user_movie_matrix df))"
  shows "cells (create_user_movie_matrix df)
           ! position (index (create_user_movie_matrix df)) u
           ! position (columns (create_user_movie_matrix df)) m
         = pivot_cell df u m"
proof -
  let ?us = "sort (remdups (map userId df))" and ?ms = "sort (remdups (map movieId df))"
  have u: "u \<in> set ?us" and m: "m \<in> set ?ms"
    using assms by (simp_all add: index_create columns_create)
  have "map (\<lambda>u. map (\<lambda>m. pivot_cell df u m) ?ms) ?us ! position ?us u ! position ?ms m
        = pivot_cell df u m"
    using position_less [OF u] position_less [OF m] nth_position [OF u] nth_position [OF m]
    by simp
  then show ?thesis
    by (simp add: create_user_movie_matrix_def Let_def)
qed

lemma preprocess_splits_cells:
  assumes "preprocess_splits train_df test_df = Inr (tr, te)"
    and "i < length (index tr)" and "j < length (columns tr)"
  shows "cells tr ! i ! j = pivot_cell train_df (index tr ! i) (columns tr ! j)"
    and "cells te ! i ! j = pivot_cell test_df (index tr ! i) (columns tr ! j)"
proof -
  let ?A = "create_user_movie_matrix train_df"
  let ?B = "create_user_movie_matrix test_df"
  let ?cu = "index_intersection (index ?A) (index ?B)"
  let ?cm = "index_intersection (columns ?A) (columns ?B)"
  have tr: "loc ?A ?cu ?cm = Inr tr" and te: "loc ?B ?cu ?cm = Inr te"
    using assms(1) by (auto simp: preprocess_splits_def Let_def split: sum.splits)
  have itr: "index tr = ?cu" "columns tr = ?cm"
    and ctr: "cells tr = map (\<lambda>u. map (\<lambda>m. cells ?A ! position (index ?A) u
                                               ! position (columns ?A) m) ?cm) ?cu"
    using tr by (auto simp: loc_def split: if_splits)
  have cte: "cells te = map (\<lambda>u. map (\<lambda>m. cells ?B ! position (index ?B) u
                                               ! position (columns ?B) m) ?cm) ?cu"
    using te by (auto simp: loc_def split: if_splits)
  have i: "i < length ?cu" and j: "j < length ?cm" using assms(2,3) itr by simp_all
  have u: "?cu ! i \<in> set (index ?A)" "?cu ! i \<in> set (index ?B)"
    using nth_mem [OF i] index_intersection_subset by blast+
  have m: "?cm ! j \<in> set (columns ?A)" "?cm ! j \<in> set (columns ?B)"
    using nth_mem [OF j] index_intersection_subset by blast+
  show "cells tr ! i ! j = pivot_cell train_df (index tr ! i) (columns tr ! j)"
    using i j create_cell [OF u(1) m(1)] by (simp add: ctr itr)
  show "cells te ! i ! j = pivot_cell test_df (index tr ! i) (columns tr ! j)"
    using i j create_cell [OF u(2) m(2)] by (simp add: cte itr)
qed

lemma ex_preprocess:
  "preprocess_splits ex_train ex_test = Inr (ex_aligned_train, ex_aligned_test)"
  by code_simp

text \<open>
  Claim C6. For every pair of train and test tables, \<open>preprocess_splits\<close> returns two
  matrices with the same row labels and the same column labels, in the same order. The
  row labels are exactly the users that occur in both tables and the column labels
  exactly the movies that occur in both, each in the order of the train matrix. Both
  matrices have one row of cells per row label and one cell per column label.
\<close>

theorem preprocess_splits_aligned:
  "\<exists>tr te. preprocess_splits train_df test_df = Inr (tr, te)
     \<and> index tr = index te \<and> columns tr = columns te
     \<and> set (index tr) = userId ` set train_df \<inter> userId ` set test_df
     \<and> set (columns tr) = movieId ` set train_df \<inter> movieId ` set test_df
     \<and> index tr = filter (\<lambda>u. u \<in> userId ` set test_df)
                       (index (create_user_movie_matrix train_df))
     \<and> columns tr = filter (\<lambda>m. m \<in> movieId ` set test_df)
                       (columns (create_user_movie_matrix train_df))
     \<and> distinct (index tr) \<and> distinct (columns tr)
     \<and> well_shaped tr \<and> well_shaped te"
proof -
  let ?A = "create_user_movie_matrix train_df"
  let ?B = "create_user_movie_matrix test_df"
  let ?cu = "index_intersection (index ?A) (index ?B)"
  let ?cm = "index_intersection (columns ?A) (columns ?B)"
  obtain tr where tr: "loc ?A ?cu ?cm = Inr tr" "index tr = ?cu" "columns tr = ?cm"
      "well_shaped tr"
    using loc_ok [OF index_intersection_subset(1) index_intersection_subset(1)] by blast
  obtain te where te: "loc ?B ?cu ?cm = Inr te" "index te = ?cu" "columns te = ?cm"
      "well_shaped te"
    using loc_ok [OF index_intersection_subset(2) index_intersection_subset(2)] by blast
  have run: "preprocess_splits train_df test_df = Inr (tr, te)"
    by (simp add: preprocess_splits_def Let_def tr te)
  have su: "set ?cu = userId ` set train_df \<inter> userId ` set test_df"
    by (simp add: set_index_intersection index_create)
  have sm: "set ?cm = movieId ` set train_df \<inter> movieId ` set test_df"
    by (simp add: set_index_intersection columns_create)
  have ou: "?cu = filter (\<lambda>u. u \<in> userId ` set test_df) (index ?A)"
    by (simp add: index_intersection_def index_create)
  have om: "?cm = filter (\<lambda>m. m \<in> movieId ` set test_df) (columns ?A)"
    by (simp add: index_intersection_def columns_create)
  have du: "distinct ?cu" by (simp add: index_intersection_def index_create)
  have dm: "distinct ?cm" by (simp add: index_intersection_def columns_create)
  show ?thesis
    using run su sm ou om du dm tr(2-4) te(2-4) by (intro exI [of _ tr] exI [of _ te]) simp
qed

theorem preprocess_splits_aligned_witness:
  "preprocess_splits ex_train ex_test = Inr (ex_aligned_train, ex_aligned_test)
   \<and> index ex_aligned_train = index ex_aligned_test
   \<and> columns ex_aligned_train = columns ex_aligned_test
   \<and> set (index ex_aligned_train) = userId ` set ex_train \<inter> userId ` set ex_test
   \<and> set (columns ex_aligned_train) = movieId ` set ex_train \<inter> movieId ` set ex_test
   \<and> well_shaped ex_aligned_train \<and> well_shaped ex_aligned_test"
proof -
  obtain tr te where h: "preprocess_splits ex_train ex_test = Inr (tr, te)"
      "index tr = index te" "columns tr = columns te"
      "set (index tr) = userId ` set ex_train \<inter> userId ` set ex_test"
      "set (columns tr) = movieId ` set ex_train \<inter> movieId ` set ex_test"
      "well_shaped tr" "well_shaped te"
    using preprocess_splits_aligned [of ex_train ex_test] by blast
  from h(1) have "tr = ex_aligned_train" "te = ex_aligned_test"
    by (simp_all only: ex_preprocess sum.inject prod.inject)
  with h show ?thesis by (simp only: ex_preprocess simp_thms)
qed

section \<open>Rescaling\<close>













lemma normalize_degenerate:
  assumes "concat R \<noteq> []" and "Min (set (concat R)) = Max (set (concat R))"
  shows "normalize_predictions R ratings = Inr (map (map (\<lambda>x. NaN)) R)"
proof -
  let ?S = "set (concat R)"
  have eq: "x = Min ?S" if "x \<in> ?S" for x
  proof -
    have "Min ?S \<le> x" "x \<le> Max ?S" using that by simp_all
    with assms(2) show ?thesis by simp
  qed
  have cell: "np_add (np_mul (np_div (Fin (x - Min ?S)) (Fin (Max ?S - Min ?S))) d) m = NaN"
    if "x \<in> ?S" for x d m
    using eq [OF that] assms(2) by (simp add: inf_of_sign_def)
  have "map (map (\<lambda>x. np_add (np_mul (np_div (Fin (x - Min ?S)) (Fin (Max ?S - Min ?S))) d) m)) R
        = map (map (\<lambda>x. NaN)) R" for d m
  proof (intro map_cong refl)
    fix row x assume "row \<in> set R" "x \<in> set row"
    then have "x \<in> ?S" by auto
    then show "np_add (np_mul (np_div (Fin (x - Min ?S)) (Fin (Max ?S - Min ?S))) d) m = NaN"
      by (rule cell)
  qed
  then show ?thesis
    using assms(1) by (simp add: normalize_predictions_def Let_def)
qed

text \<open>
  Claim C2, as the code has it. \<open>normalize_predictions\<close> has no fallback for a matrix
  whose largest cell equals its smallest cell: every cell is computed as \<open>0 / 0\<close>, and
  the result is a matrix of the same shape with \<open>nan\<close> in every cell, whatever the
  ratings are.
\<close>

theorem degenerate_gives_nan:
  assumes "concat reconstructed \<noteq> []"
    and "Max (set (concat reconstructed)) = Min (set (concat reconstructed))"
  shows "normalize_predictions reconstructed ratings
         = Inr (map (map (\<lambda>x. NaN)) reconstructed)"
  using assms by (intro normalize_degenerate) simp_all

theorem degenerate_gives_nan_witness:
  "concat [[3, 3 :: real]] \<noteq> []
   \<and> Max (set (concat [[3, 3 :: real]])) = Min (set (concat [[3, 3]]))
   \<and> normalize_predictions [[3, 3]] ex_test = Inr [[NaN, NaN]]"
proof -
  have h1: "concat [[3, 3 :: real]] \<noteq> []" by simp
  have h2: "Max (set (concat [[3, 3 :: real]])) = Min (set (concat [[3, 3]]))" by simp
  from degenerate_gives_nan [OF h1 h2, of ex_test] h1 h2 show ?thesis by simp
qed

text \<open>
  The claim C2 as stated fails: for the matrix with \<open>3\<close> in each of its four cells and
  the ratings of \<open>ex_train\<close>, the result is not the midpoint of the rating range but
  \<open>nan\<close> in every cell.
\<close>

theorem degenerate_fallback_counterexample:
  "Max (set (concat [[3, 3 :: real], [3, 3]])) = Min (set (concat [[3, 3 :: real], [3, 3]]))
   \<and> normalize_predictions [[3, 3], [3, 3]] ex_train = Inr [[NaN, NaN], [NaN, NaN]]
   \<and> \<not> list_all is_finite (concat [[NaN, NaN], [NaN, NaN]])"
  by code_simp

section \<open>Sorting and ranking\<close>


lemma set_insert_desc: "set (insert_desc x ys) = insert x (set ys)"
  by (induction ys) auto

lemma set_sort_desc: "set (sort_desc xs) = set xs"
  by (induction xs) (auto simp: set_insert_desc)

lemma length_insert_desc: "length (insert_desc x ys) = Suc (length ys)"
  by (induction ys) auto

lemma length_sort_desc: "length (sort_desc xs) = length xs"
  by (induction xs) (auto simp: length_insert_desc)

text \<open>On finite scores the sort returns a list in which no score is less than a later
  one.\<close>

lemma np_less_trans_fin:
  "is_finite a \<Longrightarrow> is_finite b \<Longrightarrow> is_finite c
   \<Longrightarrow> \<not> np_less a b \<Longrightarrow> \<not> np_less b c \<Longrightarrow> \<not> np_less a c"
  by (cases a; cases b; cases c) auto

lemma sorted_insert_desc:
  assumes "list_all (\<lambda>y. is_finite (snd y)) (x # ys)"
    and "sorted_wrt (\<lambda>a b. \<not> np_less (snd a) (snd b)) ys"
  shows "sorted_wrt (\<lambda>a b. \<not> np_less (snd a) (snd b)) (insert_desc x ys)"
  using assms
proof (induction ys)
  case Nil
  then show ?case by simp
next
  case (Cons y ys)
  show ?case
  proof (cases "np_less (snd x) (snd y)")
    case True
    have "\<not> np_less (snd y) (snd x)"
      using True Cons.prems(1) by (cases "snd x"; cases "snd y") auto
    moreover have "sorted_wrt (\<lambda>a b. \<not> np_less (snd a) (snd b)) (insert_desc x ys)"
      using Cons by simp
    ultimately show ?thesis
      using True Cons.prems by (auto simp: set_insert_desc)
  next
    case False
    have "\<forall>z\<in>set ys. \<not> np_less (snd x) (snd z)"
    proof
      fix z assume z: "z \<in> set ys"
      then have "\<not> np_less (snd y) (snd z)" using Cons.prems(2) by simp
      moreover have "is_finite (snd x)" "is_finite (snd y)" "is_finite (snd z)"
        using Cons.prems(1) z by (auto simp: list_all_iff)
      ultimately show "\<not> np_less (snd x) (snd z)"
        using False np_less_trans_fin by blast
    qed
    with False Cons.prems(2) show ?thesis by simp
  qed
qed

lemma sorted_sort_desc:
  assumes "list_all (\<lambda>y. is_finite (snd y)) xs"
  shows "sorted_wrt (\<lambda>a b. \<not> np_less (snd a) (snd b)) (sort_desc xs)"
  using assms
proof (induction xs)
  case Nil
  then show ?case by simp
next
  case (Cons x xs)
  then have "sorted_wrt (\<lambda>a b. \<not> np_less (snd a) (snd b)) (sort_desc xs)" by simp
  moreover have "list_all (\<lambda>y. is_finite (snd y)) (x # sort_desc xs)"
    using Cons.prems by (simp add: list_all_iff set_sort_desc)
  ultimately have "sorted_wrt (\<lambda>a b. \<not> np_less (snd a) (snd b)) (insert_desc x (sort_desc xs))"
    by (intro sorted_insert_desc)
  then show ?case by simp
qed







section \<open>Recommendation\<close>
















section \<open>Evaluation\<close>



lemma length_concat_shape: "map length P = map length T \<Longrightarrow> length (concat P) = length (concat T)"
  by (simp add: length_concat)




text \<open>A predicted matrix with \<open>nan\<close> in every cell, as a degenerate reconstruction
  gives, is refused by \<open>mean_squared_error\<close> as soon as one position is selected: the
  evaluation raises \<open>ValueError\<close> and reports no metric.\<close>

lemma evaluate_nan:
  assumes "map length R = map length T" and "\<exists>t\<in>set (concat T). t \<noteq> 0"
  shows "evaluate_predictions T (map (map (\<lambda>x. NaN)) R) = Inl ValueError_not_finite"
proof -
  let ?P = "map (map (\<lambda>x. NaN)) R"
  let ?sel = "filter (\<lambda>(t, p). t \<noteq> 0) (zip (concat T) (concat ?P))"
  have "map length ?P = map length R" by (simp add: comp_def)
  with assms(1) have shape: "map length ?P = map length T" by simp
  have len: "length (concat ?P) = length (concat T)"
    using shape by (rule length_concat_shape)
  obtain t where t: "t \<in> set (concat T)" "t \<noteq> 0" using assms(2) by blast
  obtain p where p: "(t, p) \<in> set (zip (concat T) (concat ?P))"
    using in_set_impl_in_set_zip1 [OF len [symmetric] t(1)] by blast
  then have "p \<in> set (concat ?P)" by (rule set_zip_rightD)
  then have nan: "p = NaN" by auto
  from p t(2) have sel: "(t, p) \<in> set ?sel" by simp
  then have ne: "map fst ?sel \<noteq> []" by (metis empty_iff list.set(1) map_is_Nil_conv)
  from sel nan have "NaN \<in> snd ` set ?sel" by (metis image_eqI snd_conv)
  then have "\<exists>c\<in>set (map snd ?sel). \<not> is_finite c"
    by (intro bexI [of _ NaN]) simp_all
  then have nf: "\<not> list_all is_finite (map snd ?sel)"
    unfolding list_all_iff by blast
  show ?thesis
    using len ne nf
    by (simp add: evaluate_predictions_def evaluate_predictions_at_def mean_squared_error_def
        Let_def)
qed

lemmas metric_defs =
  evaluate_predictions_def evaluate_predictions_at_def mean_squared_error_def
  Let_def np_ge_def np_le_def precision_score_def recall_score_def f1_score_def
  unique_labels_def weighted_average_def prf_divide_def tp_sum_def label_sum_def



















section \<open>Factorization\<close>




section \<open>The rating range of a pass\<close>






lemma ex_split_run: "split_pred_matrix ex_solver ex_train ex_test = Inr ex_split_pred"
  by code_simp

lemma ex_full_range:
  "Min (rating ` set (ex_train @ ex_test)) = 1 / 2" "Max (rating ` set (ex_train @ ex_test)) = 5"
  by code_simp+

text \<open>The whole pass over \<open>ex_train\<close> and \<open>ex_test\<close>: the predicted matrix, the
  metrics and the recommendations for user \<open>2\<close>, whose row has no cell equal to \<open>0\<close>.\<close>

lemma sqrt_16: "sqrt 16 = 4"
  using real_sqrt_abs [of 4] by simp

lemma ex_evaluate:
  "evaluate_predictions (cells ex_aligned_test) ex_split_pred = Inr (4, 0, 0, 0)"
  by (simp add: metric_defs ex_aligned_test_def ex_split_pred_def eval_nat_numeral sqrt_16)

lemma ex_recommend:
  "recommend_movies 2 ex_split_pred (index ex_aligned_train) (columns ex_aligned_train) 5 = Inr []"
  by code_simp

lemma ex_evaluate_split:
  "evaluate_split ex_solver ex_train ex_test = Inr (ex_split_pred, (4, 0, 0, 0), [])"
  by (simp add: evaluate_split_def ex_preprocess ex_split_run ex_evaluate ex_recommend)




end
